theory Spec2Isabelle
  imports
    Complex_Main
    "HOL-Library.Multiset"
    "HOL-Library.Char_ord"
    "HOL-Library.List_Lexorder"
begin

section \<open>The data frame read from the parquet file\<close>

text \<open>
  \<^verbatim>\<open>dashboard.py\<close> reads one table with pandas and works on its columns by label. The
  labels the script names are Chinese; each gets a constructor here, with the literal of
  the source beside it (as UTF-8 bytes). Any other column of the file is \<open>Other\<close>.
\<close>

datatype column =
    Leimu              \<comment> \<open>E7 B1 BB E7 9B AE: the category column, first choice\<close>
  | Suoshu_leimu       \<comment> \<open>E6 89 80 E5 B1 9E E7 B1 BB E7 9B AE: the category column, second choice\<close>
  | Target_Category    \<comment> \<open>the column the loader adds\<close>
  | Guojia             \<comment> \<open>E5 9B BD E5 AE B6: country\<close>
  | Chanpin_ming       \<comment> \<open>E4 BA A7 E5 93 81 E5 90 8D: product name\<close>
  | Xiaoliang_shuzi    \<comment> \<open>E9 94 80 E9 87 8F E6 95 B0 E5 AD 97: sales number\<close>
  | Pinglun_shu        \<comment> \<open>E8 AF 84 E8 AE BA E6 95 B0: number of reviews\<close>
  | Jiage              \<comment> \<open>E4 BB B7 E6 A0 BC: price\<close>
  | Pingfen            \<comment> \<open>E8 AF 84 E5 88 86: rating\<close>
  | Paiming            \<comment> \<open>E6 8E 92 E5 90 8D: rank\<close>
  | Other string

text \<open>
  A cell is null (None or NaN), a text, a number, or one of the two infinities of the
  64-bit floats (\<open>Infinite True\<close> is the negative one). Finite numbers are exact
  rationals: the rounding and the range of 64-bit floats are outside the model. A text
  is the list of its UTF-8 bytes.
\<close>

datatype cell = Null | Text string | Num rat | Infinite bool

text \<open>
  A row gives every column label a cell (\<open>Null\<close> under a label the frame does not have);
  \<open>columns\<close> is \<^verbatim>\<open>df.columns\<close>.
\<close>

type_synonym row = "column \<Rightarrow> cell"

record frame =
  columns :: "column list"
  rows :: "row list"

definition column_values :: "column \<Rightarrow> frame \<Rightarrow> cell list" where
  "column_values c df = map (\<lambda>r. r c) (rows df)"

text \<open>The ways the script stops or raises.\<close>

datatype halt =
    Category_column_missing   \<comment> \<open>line 37: \<^verbatim>\<open>st.error("Error: Category column missing."); st.stop()\<close>\<close>
  | Empty_data                \<comment> \<open>line 54: \<^verbatim>\<open>if df_raw.empty: st.stop()\<close>\<close>
  | KeyError
  | TypeError
  | ValueError
  | ZeroDivisionError

section \<open>Numeric coercion (lines 43 to 47)\<close>

text \<open>
  \<^verbatim>\<open>df[col].astype(str).str.replace(',', '').str.strip()\<close>, then
  \<^verbatim>\<open>pd.to_numeric(..., errors='coerce').fillna(0)\<close>.
\<close>

definition str_replace_comma :: "string \<Rightarrow> string" where
  "str_replace_comma s = filter (\<lambda>c. c \<noteq> CHR '','') s"

text \<open>
  The characters \<^verbatim>\<open>str.strip()\<close> removes, each in UTF-8: U+0009 to U+000D, U+001C to
  U+0020, U+0085, U+00A0, U+1680, U+2000 to U+200A, U+2028, U+2029, U+202F, U+205F and
  U+3000. \<open>strip_leading\<close> takes them off the front one after the other.
\<close>

definition whitespace :: "string list" where
  "whitespace =
     [[CHR 0x09], [CHR 0x0A], [CHR 0x0B], [CHR 0x0C], [CHR 0x0D], [CHR 0x1C], [CHR 0x1D],
      [CHR 0x1E], [CHR 0x1F], [CHR 0x20], [CHR 0xC2, CHR 0x85], [CHR 0xC2, CHR 0xA0],
      [CHR 0xE1, CHR 0x9A, CHR 0x80], [CHR 0xE2, CHR 0x80, CHR 0x80],
      [CHR 0xE2, CHR 0x80, CHR 0x81], [CHR 0xE2, CHR 0x80, CHR 0x82],
      [CHR 0xE2, CHR 0x80, CHR 0x83], [CHR 0xE2, CHR 0x80, CHR 0x84],
      [CHR 0xE2, CHR 0x80, CHR 0x85], [CHR 0xE2, CHR 0x80, CHR 0x86],
      [CHR 0xE2, CHR 0x80, CHR 0x87], [CHR 0xE2, CHR 0x80, CHR 0x88],
      [CHR 0xE2, CHR 0x80, CHR 0x89], [CHR 0xE2, CHR 0x80, CHR 0x8A],
      [CHR 0xE2, CHR 0x80, CHR 0xA8], [CHR 0xE2, CHR 0x80, CHR 0xA9],
      [CHR 0xE2, CHR 0x80, CHR 0xAF], [CHR 0xE2, CHR 0x81, CHR 0x9F],
      [CHR 0xE3, CHR 0x80, CHR 0x80]]"

function strip_leading :: "string list \<Rightarrow> string \<Rightarrow> string" where
  "strip_leading ws s =
     (case find (\<lambda>w. w \<noteq> [] \<and> take (length w) s = w) ws of
        None \<Rightarrow> s
      | Some w \<Rightarrow> strip_leading ws (drop (length w) s))"
  by pat_completeness auto
termination
proof (relation "measure (\<lambda>(ws, s). length s)")
  show "wf (measure (\<lambda>(ws, s). length s))" by simp
next
  fix ws :: "string list" and s w :: string
  assume "find (\<lambda>w. w \<noteq> [] \<and> take (length w) s = w) ws = Some w"
  then have w: "w \<noteq> []" "take (length w) s = w"
    by (auto simp: find_Some_iff)
  from w(2) have "length (take (length w) s) = length w"
    by simp
  then have "length w \<le> length s"
    by simp
  with w(1) show "((ws, drop (length w) s), (ws, s)) \<in> measure (\<lambda>(ws, s). length s)"
    by (cases w) auto
qed

declare strip_leading.simps [simp del]

definition str_strip :: "string \<Rightarrow> string" where
  "str_strip s = rev (strip_leading (map rev whitespace) (rev (strip_leading whitespace s)))"

text \<open>The first bytes and the last bytes of these characters.\<close>

definition lead_bytes :: "char set" where
  "lead_bytes = set (map hd whitespace)"

definition trail_bytes :: "char set" where
  "trail_bytes = set (map last whitespace)"

definition is_digit :: "char \<Rightarrow> bool" where
  "is_digit c = (c \<in> set ''0123456789'')"

definition digit_val :: "char \<Rightarrow> nat" where
  "digit_val c = of_char c - 48"

definition digits_val :: "string \<Rightarrow> nat" where
  "digits_val ds = foldl (\<lambda>a c. 10 * a + digit_val c) 0 ds"

fun split_sign :: "string \<Rightarrow> bool \<times> string" where
  "split_sign [] = (False, [])"
| "split_sign (c # cs) =
     (if c = CHR ''-'' then (True, cs)
      else if c = CHR ''+'' then (False, cs)
      else (False, c # cs))"

definition parse_exponent :: "string \<Rightarrow> int option" where
  "parse_exponent s =
     (case s of
        [] \<Rightarrow> Some 0
      | c # cs \<Rightarrow>
          if c = CHR ''e'' \<or> c = CHR ''E'' then
            (case split_sign cs of
               (neg, ds) \<Rightarrow>
                 if ds \<noteq> [] \<and> list_all is_digit ds
                 then Some (if neg then - int (digits_val ds) else int (digits_val ds))
                 else None)
          else None)"

definition scale10 :: "int \<Rightarrow> rat" where
  "scale10 e = (if 0 \<le> e then 10 ^ nat e else 1 / 10 ^ nat (- e))"

text \<open>
  The numerals the parser of \<^verbatim>\<open>to_numeric\<close> reads: an optional sign, digits with an
  optional fraction (at least one digit in all), an optional exponent, and nothing else.
\<close>

definition to_double :: "string \<Rightarrow> rat option" where
  "to_double s =
     (case split_sign s of
        (neg, r) \<Rightarrow>
          (let ip = takeWhile is_digit r;
               r1 = dropWhile is_digit r;
               fp = (case r1 of [] \<Rightarrow> [] | c # cs \<Rightarrow>
                       if c = CHR ''.'' then takeWhile is_digit cs else []);
               r2 = (case r1 of [] \<Rightarrow> [] | c # cs \<Rightarrow>
                       if c = CHR ''.'' then dropWhile is_digit cs else r1)
           in if ip = [] \<and> fp = [] then None
              else (case parse_exponent r2 of
                      None \<Rightarrow> None
                    | Some e \<Rightarrow>
                        Some ((if neg then - 1 else 1)
                              * (of_nat (digits_val ip)
                                 + of_nat (digits_val fp) / 10 ^ length fp)
                              * scale10 e))))"

text \<open>
  A text that is no numeral may still spell an infinity: \<^verbatim>\<open>inf\<close> or \<^verbatim>\<open>infinity\<close> in any
  mix of cases, with an optional sign. Every other text is NaN (\<open>Null\<close>) under
  \<^verbatim>\<open>errors='coerce'\<close>, and \<^verbatim>\<open>fillna(0)\<close> puts 0 in its place.
\<close>

definition to_lower :: "char \<Rightarrow> char" where
  "to_lower c =
     (case map_of (zip ''ABCDEFGHIJKLMNOPQRSTUVWXYZ'' ''abcdefghijklmnopqrstuvwxyz'') c of
        None \<Rightarrow> c
      | Some l \<Rightarrow> l)"

definition is_infinity :: "string \<Rightarrow> bool" where
  "is_infinity s = (map to_lower (snd (split_sign s)) \<in> set [''inf'', ''infinity''])"

definition to_numeric :: "string \<Rightarrow> cell" where
  "to_numeric s =
     (case to_double s of
        Some v \<Rightarrow> Num v
      | None \<Rightarrow> if is_infinity s then Infinite (fst (split_sign s)) else Null)"

definition fillna0 :: "cell \<Rightarrow> cell" where
  "fillna0 v = (case v of Null \<Rightarrow> Num 0 | _ \<Rightarrow> v)"

text \<open>
  \<^verbatim>\<open>astype(str)\<close> prints a null as a word that is no numeral, an infinity as
  \<^verbatim>\<open>inf\<close> or \<^verbatim>\<open>-inf\<close>, and a number as a numeral that reads back as the same number.
\<close>

fun fix_cell :: "cell \<Rightarrow> cell" where
  "fix_cell Null = fillna0 (to_numeric (str_strip (str_replace_comma ''None'')))"
| "fix_cell (Text s) = fillna0 (to_numeric (str_strip (str_replace_comma s)))"
| "fix_cell (Num v) = Num v"
| "fix_cell (Infinite neg) =
     fillna0 (to_numeric (str_strip (str_replace_comma (if neg then ''-inf'' else ''inf''))))"

definition cols_to_fix :: "column list" where
  "cols_to_fix = [Xiaoliang_shuzi, Pinglun_shu, Jiage, Pingfen, Paiming]"

definition fix_column :: "column \<Rightarrow> frame \<Rightarrow> frame" where
  "fix_column col df =
     (if col \<in> set (columns df)
      then df\<lparr>rows := map (\<lambda>r. r(col := fix_cell (r col))) (rows df)\<rparr>
      else df)"

section \<open>The loader (lines 29 to 54)\<close>

definition A_lian_qiu :: string where
  "A_lian_qiu = map char_of [0xE9, 0x98, 0xBF, 0xE8, 0x81, 0x94, 0xE9, 0x85, 0x8B :: nat]"

definition Sha_te :: string where
  "Sha_te = map char_of [0xE6, 0xB2, 0x99, 0xE7, 0x89, 0xB9 :: nat]"

text \<open>\<^verbatim>\<open>df[c] = df[src]\<close> and \<^verbatim>\<open>df[c] = value\<close>: the column is added if new.\<close>

definition add_label :: "column \<Rightarrow> column list \<Rightarrow> column list" where
  "add_label c cs = (if c \<in> set cs then cs else cs @ [c])"

definition copy_column :: "column \<Rightarrow> column \<Rightarrow> frame \<Rightarrow> frame" where
  "copy_column c src df =
     \<lparr>columns = add_label c (columns df), rows = map (\<lambda>r. r(c := r src)) (rows df)\<rparr>"

definition set_column :: "column \<Rightarrow> cell \<Rightarrow> frame \<Rightarrow> frame" where
  "set_column c v df =
     \<lparr>columns = add_label c (columns df), rows = map (\<lambda>r. r(c := v)) (rows df)\<rparr>"

definition default_country :: "frame \<Rightarrow> frame" where
  "default_country df =
     (if Guojia \<notin> set (columns df) then set_column Guojia (Text A_lian_qiu) df else df)"

text \<open>
  Lines 35 to 47 for a category column found under the label \<open>src\<close>: the copy into
  \<^verbatim>\<open>Target_Category\<close>, the default country, the numeric columns.
\<close>

definition loaded_from :: "column \<Rightarrow> frame \<Rightarrow> frame" where
  "loaded_from src df0 =
     foldl (\<lambda>df col. fix_column col df) (default_country (copy_column Target_Category src df0))
       cols_to_fix"

definition load_data :: "frame \<Rightarrow> halt + frame" where
  "load_data df0 =
     (if Leimu \<in> set (columns df0) then Inr (loaded_from Leimu df0)
      else if Suoshu_leimu \<in> set (columns df0) then Inr (loaded_from Suoshu_leimu df0)
      else Inl Category_column_missing)"

section \<open>The rows the dashboard works on\<close>

text \<open>
  After loading, the tables of the script come from six columns, read by label. \<open>product\<close> is a row of the
  loaded frame seen through these labels: the category, country and product name are
  texts or null, and the three numeric columns hold finite numbers. The loader has put a
  number or an infinity in every cell of a numeric column that the file has; a row with
  an infinity has no counterpart among the typed rows, \<open>num_of\<close> reads 0 for it, and no
  statement below runs the script on a file that has one.
\<close>

record product =
  target_category :: "string option"   \<comment> \<open>\<^verbatim>\<open>Target_Category\<close>\<close>
  guojia :: "string option"            \<comment> \<open>country\<close>
  chanpin_ming :: "string option"      \<comment> \<open>product name\<close>
  xiaoliang_shuzi :: rat               \<comment> \<open>sales number\<close>
  pinglun_shu :: rat                   \<comment> \<open>number of reviews\<close>
  paiming :: rat                       \<comment> \<open>rank\<close>

definition text_of :: "cell \<Rightarrow> string option" where
  "text_of c = (case c of Text s \<Rightarrow> Some s | _ \<Rightarrow> None)"

definition num_of :: "cell \<Rightarrow> rat" where
  "num_of c = (case c of Num v \<Rightarrow> v | _ \<Rightarrow> 0)"

definition product_of :: "row \<Rightarrow> product" where
  "product_of r =
     \<lparr>target_category = text_of (r Target_Category),
      guojia = text_of (r Guojia),
      chanpin_ming = text_of (r Chanpin_ming),
      xiaoliang_shuzi = num_of (r Xiaoliang_shuzi),
      pinglun_shu = num_of (r Pinglun_shu),
      paiming = num_of (r Paiming)\<rparr>"

text \<open>
  Reading a column the frame does not have raises \<^verbatim>\<open>KeyError\<close>: the country at line 68,
  the product name, the sales and the reviews at lines 97 to 99. The rank is not read
  before line 205.
\<close>

definition products :: "frame \<Rightarrow> halt + product list" where
  "products df =
     (if list_all (\<lambda>c. c \<in> set (columns df))
           [Target_Category, Guojia, Chanpin_ming, Xiaoliang_shuzi, Pinglun_shu]
      then Inr (map product_of (rows df))
      else Inl KeyError)"

section \<open>Country selection (lines 62 to 84)\<close>

definition country_map :: "(string \<times> string) list" where
  "country_map = [(''UAE'', A_lian_qiu), (''KSA'', Sha_te)]"

definition unique :: "'a list \<Rightarrow> 'a list" where
  "unique xs = rev (remdups (rev xs))"

definition available_countries_cn :: "product list \<Rightarrow> string option list" where
  "available_countries_cn df_raw = unique (map guojia df_raw)"

definition available_countries_en :: "product list \<Rightarrow> string list" where
  "available_countries_en df_raw =
     map fst (filter (\<lambda>kv. Some (snd kv) \<in> set (available_countries_cn df_raw)) country_map)"

definition list_index :: "'a list \<Rightarrow> 'a \<Rightarrow> nat" where
  "list_index xs a = length (takeWhile (\<lambda>x. x \<noteq> a) xs)"

definition default_idx :: "string list \<Rightarrow> nat" where
  "default_idx available = (if ''UAE'' \<in> set available then list_index available ''UAE'' else 0)"

text \<open>
  \<^verbatim>\<open>st.radio\<close>: the option the user picked, the one at \<open>index\<close> while nothing is picked,
  and \<^verbatim>\<open>None\<close> when there is no option at all.
\<close>

definition st_radio :: "'a list \<Rightarrow> nat \<Rightarrow> nat option \<Rightarrow> 'a option" where
  "st_radio options index picked =
     (if options = [] then None
      else Some (options ! (case picked of
                              None \<Rightarrow> index
                            | Some i \<Rightarrow> if i < length options then i else index)))"

definition region_filter :: "product list \<Rightarrow> string \<Rightarrow> product list" where
  "region_filter df_raw selected_country_cn =
     filter (\<lambda>r. guojia r = Some selected_country_cn) df_raw"

section \<open>Aggregation (lines 96 to 106)\<close>

record category_summary =
  category :: string
  product_count :: nat
  total_sales :: rat
  total_reviews :: rat
  top10_sales :: rat

text \<open>
  \<^verbatim>\<open>groupby\<close> drops the rows whose key is null and lists the groups in the order of
  their keys.
\<close>

definition group_keys :: "product list \<Rightarrow> string list" where
  "group_keys df = sort (remdups (List.map_filter target_category df))"

definition get_group :: "product list \<Rightarrow> string \<Rightarrow> product list" where
  "get_group df k = filter (\<lambda>r. target_category r = Some k) df"

text \<open>
  \<^verbatim>\<open>count\<close> counts the cells that are not null. \<^verbatim>\<open>sum\<close> adds exact numbers here;
  pandas adds 64-bit integers or floats, whose rounding and overflow are outside the
  model.
\<close>

definition count_non_null :: "'a option list \<Rightarrow> nat" where
  "count_non_null xs = length (filter (\<lambda>x. x \<noteq> None) xs)"

definition base_stats :: "product list \<Rightarrow> (string \<times> nat \<times> rat \<times> rat) list" where
  "base_stats df =
     map (\<lambda>k. (k,
               count_non_null (map chanpin_ming (get_group df k)),
               sum_list (map xiaoliang_shuzi (get_group df k)),
               sum_list (map pinglun_shu (get_group df k))))
         (group_keys df)"

text \<open>
  \<^verbatim>\<open>sort_values\<close> on one column. Descending order is the ascending sort of the reversed
  table, reversed. The model sorts stably; the order pandas leaves among equal keys is
  not used by any statement below.
\<close>

definition sort_values :: "('a \<Rightarrow> rat) \<Rightarrow> bool \<Rightarrow> 'a list \<Rightarrow> 'a list" where
  "sort_values key ascending xs =
     (if ascending then sort_key key xs else rev (sort_key key (rev xs)))"

definition nlargest :: "nat \<Rightarrow> ('a \<Rightarrow> rat) \<Rightarrow> 'a list \<Rightarrow> 'a list" where
  "nlargest n key xs = take n (sort_values key False xs)"

definition get_top10_sum :: "product list \<Rightarrow> rat" where
  "get_top10_sum grp = sum_list (map xiaoliang_shuzi (nlargest 10 xiaoliang_shuzi grp))"

text \<open>
  Line 105. With at least one group, \<^verbatim>\<open>apply\<close> returns the series of the sums and
  \<^verbatim>\<open>reset_index(name='top10_sales')\<close> makes the table of them. With no group it returns
  an empty frame, whose \<^verbatim>\<open>reset_index\<close> has no argument \<^verbatim>\<open>name\<close>: \<^verbatim>\<open>TypeError\<close>.
\<close>

definition top10_stats :: "product list \<Rightarrow> halt + (string \<times> rat) list" where
  "top10_stats df =
     (if group_keys df = [] then Inl TypeError
      else Inr (map (\<lambda>k. (k, get_top10_sum (get_group df k))) (group_keys df)))"

text \<open>\<^verbatim>\<open>pd.merge(..., on='Target_Category')\<close>: the inner join, in the order of the left table.\<close>

definition merge :: "(string \<times> nat \<times> rat \<times> rat) list \<Rightarrow> (string \<times> rat) list \<Rightarrow> category_summary list" where
  "merge left right =
     concat (map (\<lambda>(k, n, s, r).
                    map (\<lambda>kt. \<lparr>category = k, product_count = n, total_sales = s,
                                total_reviews = r, top10_sales = snd kt\<rparr>)
                        (filter (\<lambda>kt. fst kt = k) right))
                 left)"

definition category_stats :: "product list \<Rightarrow> halt + category_summary list" where
  "category_stats df =
     (case top10_stats df of
        Inl e \<Rightarrow> Inl e
      | Inr right \<Rightarrow> Inr (merge (base_stats df) right))"

section \<open>Filters and sorting (lines 113 to 140)\<close>

definition sort_options :: "string list" where
  "sort_options = [''By Total Sales (Heat)'', ''By Total Reviews (Maturity)'']"

text \<open>
  \<^verbatim>\<open>Series.max()\<close> of an empty series is NaN (\<open>None\<close>), and \<^verbatim>\<open>int\<close> of NaN raises
  \<^verbatim>\<open>ValueError\<close>; \<^verbatim>\<open>int\<close> of a number drops its fraction.
\<close>

definition series_max :: "rat list \<Rightarrow> rat option" where
  "series_max xs = (case xs of [] \<Rightarrow> None | x # ys \<Rightarrow> Some (fold max ys x))"

definition py_int :: "rat option \<Rightarrow> halt + int" where
  "py_int v =
     (case v of
        None \<Rightarrow> Inl ValueError
      | Some q \<Rightarrow> Inr (if 0 \<le> q then \<lfloor>q\<rfloor> else \<lceil>q\<rceil>))"

definition max_product_count :: "category_summary list \<Rightarrow> halt + int" where
  "max_product_count stats = py_int (series_max (map (\<lambda>s. of_nat (product_count s)) stats))"

definition max_total_sales :: "category_summary list \<Rightarrow> halt + int" where
  "max_total_sales stats = py_int (series_max (map total_sales stats))"

definition filtered_cats_df ::
    "category_summary list \<Rightarrow> int \<Rightarrow> int \<Rightarrow> string \<Rightarrow> category_summary list" where
  "filtered_cats_df stats min_products min_sales sort_mode =
     (if sort_mode = ''By Total Sales (Heat)''
      then sort_values total_sales False
             (filter (\<lambda>s. min_products \<le> int (product_count s) \<and> of_int min_sales \<le> total_sales s) stats)
      else sort_values total_reviews False
             (filter (\<lambda>s. min_products \<le> int (product_count s) \<and> of_int min_sales \<le> total_sales s) stats))"

definition valid_categories :: "category_summary list \<Rightarrow> string list" where
  "valid_categories filtered = map category filtered"

section \<open>Category details (lines 200 to 261)\<close>

definition current_cat :: "string option \<Rightarrow> string list \<Rightarrow> string option" where
  "current_cat selected_category_state valid =
     (if selected_category_state \<in> set (map Some valid) then selected_category_state
      else (case valid of [] \<Rightarrow> None | c # _ \<Rightarrow> Some c))"

text \<open>\<^verbatim>\<open>if current_cat:\<close> holds for a text that is not empty.\<close>

definition truthy :: "string option \<Rightarrow> bool" where
  "truthy c = (case c of None \<Rightarrow> False | Some s \<Rightarrow> s \<noteq> [])"

definition subset_rows :: "product list \<Rightarrow> string \<Rightarrow> product list" where
  "subset_rows df cat = sort_values paiming True (filter (\<lambda>r. target_category r = Some cat) df)"

datatype details =
    Selected string "product list"   \<comment> \<open>the heading of line 207 and the rows shown under it\<close>
  | No_data_warning                   \<comment> \<open>line 261\<close>

definition category_details :: "product list \<Rightarrow> string option \<Rightarrow> string list \<Rightarrow> details" where
  "category_details df selected_category_state valid =
     (case current_cat selected_category_state valid of
        None \<Rightarrow> No_data_warning
      | Some c \<Rightarrow> if truthy (Some c) then Selected c (subset_rows df c) else No_data_warning)"

text \<open>Lines 234 to 236. \<^verbatim>\<open>a / b\<close> raises \<^verbatim>\<open>ZeroDivisionError\<close> when \<open>b\<close> is 0.\<close>

definition true_div :: "int \<Rightarrow> int \<Rightarrow> halt + rat" where
  "true_div a b = (if b = 0 then Inl ZeroDivisionError else Inr (of_int a / of_int b))"

definition progress_val :: "product \<Rightarrow> product list \<Rightarrow> halt + rat" where
  "progress_val row df =
     (case py_int (Some (xiaoliang_shuzi row)) of
        Inl e \<Rightarrow> Inl e
      | Inr sales_val \<Rightarrow>
          (case py_int (series_max (map xiaoliang_shuzi df)) of
             Inl e \<Rightarrow> Inl e
           | Inr max_val \<Rightarrow>
               if 0 < max_val
               then (case true_div sales_val max_val of
                       Inl e \<Rightarrow> Inl e
                     | Inr q \<Rightarrow> Inr (min q 1))
               else Inr 0))"

section \<open>The script, top to bottom\<close>

record ui =
  country_picked :: "nat option"
  sort_picked :: "nat option"
  slider_min_products :: int
  slider_min_sales :: int
  session_selected_category :: "string option"

record view =
  view_country_en :: string
  view_df :: "product list"
  view_category_stats :: "category_summary list"
  view_filtered_cats_df :: "category_summary list"
  view_details :: details

text \<open>Lines 53 and 54, and the columns read by label down to line 99.\<close>

definition read_df_raw :: "frame \<Rightarrow> halt + product list" where
  "read_df_raw file =
     (case load_data file of
        Inl e \<Rightarrow> Inl e
      | Inr loaded \<Rightarrow> if rows loaded = [] then Inl Empty_data else products loaded)"

text \<open>
  Lines 113 to 205, for the rows \<open>df\<close> of the selected region and their summaries: the
  tables the script hands to the widgets.
\<close>

definition tables :: "string \<Rightarrow> product list \<Rightarrow> category_summary list \<Rightarrow> ui \<Rightarrow> view" where
  "tables en df stats u =
     \<lparr>view_country_en = en,
      view_df = df,
      view_category_stats = stats,
      view_filtered_cats_df =
        filtered_cats_df stats (slider_min_products u) (slider_min_sales u)
          (case st_radio sort_options 0 (sort_picked u) of None \<Rightarrow> [] | Some m \<Rightarrow> m),
      view_details =
        category_details df (session_selected_category u)
          (valid_categories
             (filtered_cats_df stats (slider_min_products u) (slider_min_sales u)
                (case st_radio sort_options 0 (sort_picked u) of None \<Rightarrow> [] | Some m \<Rightarrow> m)))\<rparr>"

text \<open>
  Lines 59 to 261, as far as the tables go. \<^verbatim>\<open>country_map[selected_country_en]\<close> raises
  \<^verbatim>\<open>KeyError\<close> when the radio has no option to return; the two sliders compute their
  upper bounds before the filter runs; sorting the rows of the selected category by rank,
  line 205, raises \<^verbatim>\<open>KeyError\<close> when the file has no rank column (\<open>has_rank\<close>). What
  Streamlit does with the arguments of a widget, and the drawing of the buttons and of
  the rows, lines 160 to 191 and 207 to 259, are outside the model.
\<close>

definition page :: "bool \<Rightarrow> product list \<Rightarrow> ui \<Rightarrow> halt + view" where
  "page has_rank df_raw u =
     (case st_radio (available_countries_en df_raw)
             (default_idx (available_countries_en df_raw)) (country_picked u) of
        None \<Rightarrow> Inl KeyError
      | Some en \<Rightarrow>
          (case map_of country_map en of
             None \<Rightarrow> Inl KeyError
           | Some cn \<Rightarrow>
               (case category_stats (region_filter df_raw cn) of
                  Inl e \<Rightarrow> Inl e
                | Inr stats \<Rightarrow>
                    (case max_product_count stats of
                       Inl e \<Rightarrow> Inl e
                     | Inr _ \<Rightarrow>
                         (case max_total_sales stats of
                            Inl e \<Rightarrow> Inl e
                          | Inr _ \<Rightarrow>
                              if has_rank \<or>
                                 view_details (tables en (region_filter df_raw cn) stats u) =
                                   No_data_warning
                              then Inr (tables en (region_filter df_raw cn) stats u)
                              else Inl KeyError)))))"

definition dashboard :: "frame \<Rightarrow> ui \<Rightarrow> halt + view" where
  "dashboard file u =
     (case read_df_raw file of
        Inl e \<Rightarrow> Inl e
      | Inr df_raw \<Rightarrow> page (Paiming \<in> set (columns file)) df_raw u)"

section \<open>Concrete tables\<close>

text \<open>
  What the merge of line 106 comes to for one category (lemma \<open>category_stats_eq\<close>
  below): the row of \<open>base_stats\<close> with the one row of \<open>top10_stats\<close> under the same key.
\<close>

definition summary_of :: "product list \<Rightarrow> string \<Rightarrow> category_summary" where
  "summary_of df k =
     \<lparr>category = k,
      product_count = count_non_null (map chanpin_ming (get_group df k)),
      total_sales = sum_list (map xiaoliang_shuzi (get_group df k)),
      total_reviews = sum_list (map pinglun_shu (get_group df k)),
      top10_sales = get_top10_sum (get_group df k)\<rparr>"

text \<open>Rows to run the definitions on. \<open>toys\<close> is a listing of the category Toys.\<close>

definition toys :: "string \<Rightarrow> string option \<Rightarrow> rat \<Rightarrow> rat \<Rightarrow> product" where
  "toys country name sales rank =
     \<lparr>target_category = Some ''Toys'', guojia = Some country, chanpin_ming = name,
      xiaoliang_shuzi = sales, pinglun_shu = 0, paiming = rank\<rparr>"

text \<open>Two listings in the first country and one in the second.\<close>

definition three_rows :: "product list" where
  "three_rows =
     [toys A_lian_qiu (Some ''car'') 100 1,
      toys A_lian_qiu (Some ''doll'') 50 2,
      toys Sha_te (Some ''kite'') 999 1]"



text \<open>Eleven listings of one category whose product name is null.\<close>

definition unnamed_rows :: "product list" where
  "unnamed_rows = replicate 11 (toys A_lian_qiu None 1 1)"

text \<open>Two summaries to filter and sort.\<close>

definition apps_and_toys :: "category_summary list" where
  "apps_and_toys =
     [\<lparr>category = ''Apps'', product_count = 12, total_sales = 70, total_reviews = 9,
       top10_sales = 60\<rparr>,
      \<lparr>category = ''Toys'', product_count = 15, total_sales = 150, total_reviews = 4,
       top10_sales = 120\<rparr>]"

text \<open>Two listings that sold nothing.\<close>

definition unsold_rows :: "product list" where
  "unsold_rows = [toys A_lian_qiu (Some ''car'') 0 1, toys A_lian_qiu (Some ''doll'') 0 2]"

text \<open>
  A file as \<^verbatim>\<open>read_parquet\<close> hands it over: six columns, texts in all of them. The third
  listing is from a country that \<open>country_map\<close> does not have.
\<close>

definition listing :: "cell \<Rightarrow> cell \<Rightarrow> cell \<Rightarrow> cell \<Rightarrow> cell \<Rightarrow> row" where
  "listing cat country name sales rank =
     (\<lambda>_. Null)(Leimu := cat, Guojia := country, Chanpin_ming := name,
                Xiaoliang_shuzi := sales, Pinglun_shu := Text ''0'', Paiming := rank)"

definition file_columns :: "column list" where
  "file_columns = [Leimu, Guojia, Chanpin_ming, Xiaoliang_shuzi, Pinglun_shu, Paiming]"

definition toys_file :: frame where
  "toys_file =
     \<lparr>columns = file_columns,
      rows = [listing (Text ''Toys'') (Text A_lian_qiu) (Text ''car'') (Text ''100'') (Text ''1''),
              listing (Text ''Toys'') (Text A_lian_qiu) (Text ''doll'') (Text ''50'') (Text ''2''),
              listing (Text ''Toys'') (Text ''Misr'') (Text ''kite'') (Text ''999'') (Text ''1'')]\<rparr>"

text \<open>The inputs of a first visit, with the slider of the product count moved to 0.\<close>

definition first_visit :: ui where
  "first_visit =
     \<lparr>country_picked = None, sort_picked = None, slider_min_products = 0,
      slider_min_sales = 0, session_selected_category = None\<rparr>"

text \<open>The rows of \<open>toys_file\<close> once loaded, and the page a first visit gets from them.\<close>

definition toys_products :: "product list" where
  "toys_products =
     [toys A_lian_qiu (Some ''car'') 100 1, toys A_lian_qiu (Some ''doll'') 50 2,
      toys ''Misr'' (Some ''kite'') 999 1]"

definition toys_view :: view where
  "toys_view =
     \<lparr>view_country_en = ''UAE'',
      view_df = [toys A_lian_qiu (Some ''car'') 100 1, toys A_lian_qiu (Some ''doll'') 50 2],
      view_category_stats =
        [\<lparr>category = ''Toys'', product_count = 2, total_sales = 150, total_reviews = 0,
          top10_sales = 150\<rparr>],
      view_filtered_cats_df =
        [\<lparr>category = ''Toys'', product_count = 2, total_sales = 150, total_reviews = 0,
          top10_sales = 150\<rparr>],
      view_details =
        Selected ''Toys''
          [toys A_lian_qiu (Some ''car'') 100 1, toys A_lian_qiu (Some ''doll'') 50 2]\<rparr>"

text \<open>
  A file whose category is under the second label and that has no country column; a
  file with neither category label; and a file with a negative sales number.
\<close>

definition no_country_file :: frame where
  "no_country_file =
     \<lparr>columns = [Suoshu_leimu, Chanpin_ming, Xiaoliang_shuzi, Pinglun_shu, Paiming],
      rows = [(\<lambda>_. Null)(Suoshu_leimu := Text ''Toys'', Chanpin_ming := Text ''car'',
                Xiaoliang_shuzi := Text ''1,234'', Pinglun_shu := Text ''abc'',
                Paiming := Text '''')]\<rparr>"

definition no_category_file :: frame where
  "no_category_file =
     \<lparr>columns = [Guojia, Chanpin_ming, Xiaoliang_shuzi, Pinglun_shu, Paiming],
      rows = [(\<lambda>_. Null)(Guojia := Text A_lian_qiu, Chanpin_ming := Text ''car'',
                Xiaoliang_shuzi := Text ''100'', Pinglun_shu := Text ''0'',
                Paiming := Text ''1'')]\<rparr>"


text \<open>
  A listing whose category is the empty text, and one that has no category, each as a
  loaded row and as the one row of a file.
\<close>

definition blank_car :: product where
  "blank_car =
     \<lparr>target_category = Some [], guojia = Some A_lian_qiu, chanpin_ming = Some ''car'',
      xiaoliang_shuzi = 100, pinglun_shu = 0, paiming = 1\<rparr>"

definition blank_category_file :: frame where
  "blank_category_file =
     \<lparr>columns = file_columns,
      rows = [listing (Text []) (Text A_lian_qiu) (Text ''car'') (Text ''100'') (Text ''1'')]\<rparr>"

definition uncategorised_car :: product where
  "uncategorised_car =
     \<lparr>target_category = None, guojia = Some A_lian_qiu, chanpin_ming = Some ''car'',
      xiaoliang_shuzi = 100, pinglun_shu = 0, paiming = 1\<rparr>"

definition null_category_file :: frame where
  "null_category_file =
     \<lparr>columns = file_columns,
      rows = [listing Null (Text A_lian_qiu) (Text ''car'') (Text ''100'') (Text ''1'')]\<rparr>"

section \<open>Taking white space off a text\<close>

lemma strip_leading_keep:
  "find (\<lambda>w. w \<noteq> [] \<and> take (length w) s = w) ws = None \<Longrightarrow> strip_leading ws s = s"
  by (simp add: strip_leading.simps)



lemma strip_leading_hd:
  assumes "c \<notin> set (map hd ws)"
  shows "strip_leading ws (c # cs) = c # cs"
proof (rule strip_leading_keep)
  have "\<not> (w \<noteq> [] \<and> take (length w) (c # cs) = w)" if "w \<in> set ws" for w
  proof (cases w)
    case Nil
    then show ?thesis by simp
  next
    case (Cons a as)
    with that assms have "a \<noteq> c" by force
    with Cons show ?thesis by auto
  qed
  then show "find (\<lambda>w. w \<noteq> [] \<and> take (length w) (c # cs) = w) ws = None"
    by (auto simp: find_None_iff)
qed


text \<open>A text that neither starts nor ends with a byte of white space is left as it is.\<close>

lemma str_strip_plain:
  assumes "s \<noteq> []" "hd s \<notin> lead_bytes" "last s \<notin> trail_bytes"
  shows "str_strip s = s"
proof -
  from assms(1) obtain c cs where s: "s = c # cs" by (cases s) auto
  with assms(2) have a: "strip_leading whitespace s = s"
    by (simp add: strip_leading_hd lead_bytes_def)
  from assms(1) obtain d ds where r: "rev s = d # ds" by (cases "rev s") auto
  then have "d = last s" by (metis assms(1) last_rev list.sel(1) rev_rev_ident hd_rev)
  have "[] \<notin> set whitespace" by (simp add: whitespace_def)
  then have "map hd (map rev whitespace) = map last whitespace"
    by (auto simp: hd_rev)
  with assms(3) \<open>d = last s\<close> have "d \<notin> set (map hd (map rev whitespace))"
    by (simp add: trail_bytes_def)
  then have "strip_leading (map rev whitespace) (rev s) = rev s"
    unfolding r by (rule strip_leading_hd)
  with a show ?thesis by (simp add: str_strip_def)
qed

lemma lead_bytes_eq:
  "lead_bytes = {CHR 0x09, CHR 0x0A, CHR 0x0B, CHR 0x0C, CHR 0x0D, CHR 0x1C, CHR 0x1D, CHR 0x1E, CHR 0x1F, CHR 0x20, CHR 0xC2, CHR 0xE1, CHR 0xE2, CHR 0xE3}"
  by (auto simp: lead_bytes_def whitespace_def)

lemma trail_bytes_eq:
  "trail_bytes = {CHR 0x09, CHR 0x0A, CHR 0x0B, CHR 0x0C, CHR 0x0D, CHR 0x1C, CHR 0x1D, CHR 0x1E, CHR 0x1F, CHR 0x20, CHR 0x80, CHR 0x81, CHR 0x82, CHR 0x83, CHR 0x84, CHR 0x85, CHR 0x86, CHR 0x87, CHR 0x88, CHR 0x89, CHR 0x8A, CHR 0x9F, CHR 0xA0, CHR 0xA8, CHR 0xA9, CHR 0xAF}"
  by (auto simp: trail_bytes_def whitespace_def)

lemmas parse_eval = str_replace_comma_def to_numeric_def to_double_def is_infinity_def
  to_lower_def is_digit_def digits_val_def digit_val_def parse_exponent_def scale10_def
  fillna0_def

section \<open>Facts about sorting and grouping\<close>

lemma mset_sort_values: "mset (sort_values key asc xs) = mset xs"
  by (simp add: sort_values_def)

lemma set_sort_values: "set (sort_values key asc xs) = set xs"
  by (simp add: sort_values_def)




lemma distinct_group_keys: "distinct (group_keys df)"
  by (simp add: group_keys_def)

lemma set_group_keys: "set (group_keys df) = {k. \<exists>r \<in> set df. target_category r = Some k}"
  by (force simp: group_keys_def List.map_filter_def image_iff)

lemma filter_key_map:
  assumes "distinct ks" "k \<in> set ks"
  shows "filter (\<lambda>kt. fst kt = k) (map (\<lambda>k. (k, f k)) ks) = [(k, f k)]"
  using assms by (induction ks) (auto simp: filter_empty_conv)

lemma group_keys_Nil_iff: "group_keys df = [] \<longleftrightarrow> (\<forall>r \<in> set df. target_category r = None)"
proof -
  have "group_keys df = [] \<longleftrightarrow> set (group_keys df) = {}"
    by simp
  also have "\<dots> \<longleftrightarrow> (\<forall>r \<in> set df. target_category r = None)"
    unfolding set_group_keys by auto (metis option.exhaust)
  finally show ?thesis .
qed

lemma category_stats_eq:
  "category_stats df =
     (if group_keys df = [] then Inl TypeError else Inr (map (summary_of df) (group_keys df)))"
proof -
  let ?right = "map (\<lambda>k. (k, get_top10_sum (get_group df k))) (group_keys df)"
  have "\<And>k. k \<in> set (group_keys df) \<Longrightarrow>
      filter (\<lambda>kt. fst kt = k) ?right = [(k, get_top10_sum (get_group df k))]"
    by (rule filter_key_map[OF distinct_group_keys])
  then have "concat (map (\<lambda>k. map (\<lambda>kt. \<lparr>category = k,
        product_count = count_non_null (map chanpin_ming (get_group df k)),
        total_sales = sum_list (map xiaoliang_shuzi (get_group df k)),
        total_reviews = sum_list (map pinglun_shu (get_group df k)),
        top10_sales = snd kt\<rparr>) (filter (\<lambda>kt. fst kt = k) ?right)) (group_keys df))
     = concat (map (\<lambda>k. [summary_of df k]) (group_keys df))"
    by (intro arg_cong[where f=concat] map_cong) (simp_all add: summary_of_def)
  also have "\<dots> = map (summary_of df) (group_keys df)"
    by (induction "group_keys df") simp_all
  finally have "merge (base_stats df) ?right = map (summary_of df) (group_keys df)"
    by (simp add: merge_def base_stats_def comp_def)
  then show ?thesis
    by (simp add: category_stats_def top10_stats_def)
qed

lemma category_stats_Inr:
  "category_stats df = Inr stats \<Longrightarrow> stats = map (summary_of df) (group_keys df) \<and> stats \<noteq> []"
  by (auto simp: category_stats_eq split: if_splits)

lemma category_stats_Inl:
  "category_stats df = Inl e \<longleftrightarrow> e = TypeError \<and> (\<forall>r \<in> set df. target_category r = None)"
  by (auto simp: category_stats_eq group_keys_Nil_iff)



lemma count_non_null_group:
  "count_non_null (map chanpin_ming (get_group df k)) =
     length (filter (\<lambda>r. target_category r = Some k \<and> chanpin_ming r \<noteq> None) df)"
  by (induction df) (simp_all add: count_non_null_def get_group_def)

lemma length_filter_disjoint:
  assumes "\<And>x. x \<in> set xs \<Longrightarrow> \<not> (P x \<and> Q x)"
  shows "length (filter P xs) + length (filter Q xs) = length (filter (\<lambda>x. P x \<or> Q x) xs)"
  using assms by (induction xs) auto

lemma sum_count_keys:
  assumes "distinct ks"
  shows "sum_list (map (\<lambda>k. length (filter (\<lambda>r. f r = Some k \<and> P r) xs)) ks) =
         length (filter (\<lambda>r. (\<exists>k \<in> set ks. f r = Some k) \<and> P r) xs)"
  using assms
proof (induction ks)
  case Nil
  then show ?case by simp
next
  case (Cons k ks)
  have "length (filter (\<lambda>r. f r = Some k \<and> P r) xs) +
        length (filter (\<lambda>r. (\<exists>k \<in> set ks. f r = Some k) \<and> P r) xs) =
        length (filter (\<lambda>r. (f r = Some k \<and> P r) \<or> ((\<exists>k \<in> set ks. f r = Some k) \<and> P r)) xs)"
    using Cons.prems by (intro length_filter_disjoint) auto
  also have "\<dots> = length (filter (\<lambda>r. (\<exists>k' \<in> set (k # ks). f r = Some k') \<and> P r) xs)"
    by (intro arg_cong[where f=length] filter_cong) auto
  finally show ?case using Cons by simp
qed

lemma sum_product_count:
  assumes "category_stats df = Inr stats"
  shows "sum_list (map product_count stats) =
     length (filter (\<lambda>r. target_category r \<noteq> None \<and> chanpin_ming r \<noteq> None) df)"
proof -
  from category_stats_Inr [OF assms] have stats: "stats = map (summary_of df) (group_keys df)"
    by simp
  have "sum_list (map product_count stats) =
        sum_list (map (\<lambda>k. length (filter (\<lambda>r. target_category r = Some k \<and> chanpin_ming r \<noteq> None) df))
                      (group_keys df))"
    by (simp add: stats comp_def summary_of_def count_non_null_group)
  also have "\<dots> = length (filter (\<lambda>r. (\<exists>k \<in> set (group_keys df). target_category r = Some k)
                                        \<and> chanpin_ming r \<noteq> None) df)"
    by (rule sum_count_keys[OF distinct_group_keys])
  also have "\<dots> = length (filter (\<lambda>r. target_category r \<noteq> None \<and> chanpin_ming r \<noteq> None) df)"
    by (intro arg_cong[where f=length] filter_cong) (auto simp: set_group_keys)
  finally show ?thesis .
qed

section \<open>The concrete tables, evaluated\<close>

lemma country_neq: "A_lian_qiu \<noteq> Sha_te" "Sha_te \<noteq> A_lian_qiu"
  by (simp_all add: A_lian_qiu_def Sha_te_def)

lemma toys_sel:
  "target_category (toys c n s r) = Some ''Toys''" "guojia (toys c n s r) = Some c"
  "chanpin_ming (toys c n s r) = n" "xiaoliang_shuzi (toys c n s r) = s"
  "pinglun_shu (toys c n s r) = 0" "paiming (toys c n s r) = r"
  by (simp_all add: toys_def)

lemmas stats_eval = category_stats_eq summary_of_def group_keys_def get_group_def toys_def
  List.map_filter_def count_non_null_def get_top10_sum_def nlargest_def sort_values_def

lemma region_filter_three_rows:
  "region_filter three_rows A_lian_qiu =
     [toys A_lian_qiu (Some ''car'') 100 1, toys A_lian_qiu (Some ''doll'') 50 2]"
  by (simp add: region_filter_def three_rows_def toys_def country_neq)

lemma category_stats_three_rows:
  "category_stats (region_filter three_rows A_lian_qiu) =
     Inr [\<lparr>category = ''Toys'', product_count = 2, total_sales = 150, total_reviews = 0,
       top10_sales = 150\<rparr>]"
  unfolding region_filter_three_rows by (simp add: stats_eval)



section \<open>Top-10 sales against total sales\<close>





section \<open>Product counts against the number of rows\<close>

text \<open>
  Claim C3, as the code has it. \<open>product_count\<close> is the \<^verbatim>\<open>count\<close> of the product name
  column, so a row adds to it only when its product name is not null: for a table with
  at least one row whose rows all have a category and a product name, the aggregation
  returns summaries whose product counts add up to the number of rows. For the table
  without a row it returns none: line 105 raises \<^verbatim>\<open>TypeError\<close>.
\<close>

theorem product_counts_sum_to_rows:
  assumes "\<forall>r \<in> set df. target_category r \<noteq> None \<and> chanpin_ming r \<noteq> None"
  shows "(df \<noteq> [] \<longrightarrow>
            (\<exists>stats. category_stats df = Inr stats \<and>
                     sum_list (map product_count stats) = length df)) \<and>
         (df = [] \<longrightarrow> category_stats df = Inl TypeError)"
proof (intro conjI impI)
  assume "df \<noteq> []"
  then obtain r where "r \<in> set df" by (cases df) auto
  with assms have "\<not> (\<forall>r \<in> set df. target_category r = None)" by auto
  then have "group_keys df \<noteq> []"
    by (simp add: group_keys_Nil_iff)
  then obtain stats where stats: "category_stats df = Inr stats"
    by (simp add: category_stats_eq)
  have "filter (\<lambda>r. target_category r \<noteq> None \<and> chanpin_ming r \<noteq> None) df = df"
    using assms by (simp add: filter_id_conv)
  with sum_product_count [OF stats] stats
  show "\<exists>stats. category_stats df = Inr stats \<and> sum_list (map product_count stats) = length df"
    by simp
next
  assume "df = []"
  then show "category_stats df = Inl TypeError"
    by (simp add: category_stats_Inl)
qed

theorem product_counts_sum_to_rows_witness:
  "list_all (\<lambda>r. target_category r \<noteq> None \<and> chanpin_ming r \<noteq> None) three_rows \<and>
   three_rows \<noteq> [] \<and>
   map_sum id (\<lambda>stats. sum_list (map product_count stats)) (category_stats three_rows) = Inr 3"
proof -
  have h: "\<forall>r \<in> set three_rows. target_category r \<noteq> None \<and> chanpin_ming r \<noteq> None"
    by (simp add: three_rows_def toys_def)
  have n: "three_rows \<noteq> []" "length three_rows = 3"
    by (simp_all add: three_rows_def)
  from product_counts_sum_to_rows [OF h] n obtain stats where
    "category_stats three_rows = Inr stats" "sum_list (map product_count stats) = 3"
    by auto
  with h n show ?thesis
    by (simp add: list_all_iff)
qed

text \<open>
  Without the condition on the product name the sum falls short: eleven rows with a
  category and no product name give a sum of 0.
\<close>

theorem product_counts_counterexample:
  "list_all (\<lambda>r. target_category r \<noteq> None) unnamed_rows \<and>
   map_sum id (\<lambda>stats. sum_list (map product_count stats)) (category_stats unnamed_rows) = Inr 0 \<and>
   length unnamed_rows = 11"
  by (simp add: unnamed_rows_def stats_eval eval_nat_numeral)

section \<open>Filtering and sorting the summaries\<close>


lemma sorted_wrt_sort_values_asc:
  "sorted_wrt (\<lambda>a b. key a \<le> key b) (sort_values key True xs)"
  using sorted_sort_key [of key xs] by (simp add: sort_values_def sorted_map)

lemma filtered_apps_and_toys:
  "filtered_cats_df apps_and_toys 15 150 ''By Total Sales (Heat)'' =
     [\<lparr>category = ''Toys'', product_count = 15, total_sales = 150, total_reviews = 4,
       top10_sales = 120\<rparr>]"
  "filtered_cats_df apps_and_toys 0 0 ''By Total Sales (Heat)'' =
     [\<lparr>category = ''Toys'', product_count = 15, total_sales = 150, total_reviews = 4,
       top10_sales = 120\<rparr>,
      \<lparr>category = ''Apps'', product_count = 12, total_sales = 70, total_reviews = 9,
       top10_sales = 60\<rparr>]"
  "filtered_cats_df apps_and_toys 0 0 ''By Total Reviews (Maturity)'' =
     [\<lparr>category = ''Apps'', product_count = 12, total_sales = 70, total_reviews = 9,
       top10_sales = 60\<rparr>,
      \<lparr>category = ''Toys'', product_count = 15, total_sales = 150, total_reviews = 4,
       top10_sales = 120\<rparr>]"
  by (simp_all add: filtered_cats_df_def apps_and_toys_def sort_values_def)

text \<open>
  Claim C4. The table \<open>filtered_cats_df\<close> holds exactly the summaries with
  \<open>product_count \<ge> min_products\<close> and \<open>total_sales \<ge> min_sales\<close>, both inclusive: it is
  part of the input, each of its rows passes both comparisons, no row that passes is left
  out, and rows keep their multiplicity.
\<close>

theorem filtered_cats_df_exact:
  "set (filtered_cats_df stats min_products min_sales sort_mode) \<subseteq> set stats \<and>
   (\<forall>s \<in> set (filtered_cats_df stats min_products min_sales sort_mode).
      min_products \<le> int (product_count s) \<and> of_int min_sales \<le> total_sales s) \<and>
   (\<forall>s \<in> set stats.
      min_products \<le> int (product_count s) \<and> of_int min_sales \<le> total_sales s
        \<longrightarrow> s \<in> set (filtered_cats_df stats min_products min_sales sort_mode)) \<and>
   mset (filtered_cats_df stats min_products min_sales sort_mode) =
     filter_mset (\<lambda>s. min_products \<le> int (product_count s) \<and> of_int min_sales \<le> total_sales s)
       (mset stats)"
  by (auto simp: filtered_cats_df_def set_sort_values mset_sort_values)

theorem filtered_cats_df_exact_witness:
  "filtered_cats_df apps_and_toys 15 150 ''By Total Sales (Heat)'' =
     [\<lparr>category = ''Toys'', product_count = 15, total_sales = 150, total_reviews = 4,
       top10_sales = 120\<rparr>] \<and>
   \<lparr>category = ''Toys'', product_count = 15, total_sales = 150, total_reviews = 4,
     top10_sales = 120\<rparr> \<in> set apps_and_toys \<and>
   \<lparr>category = ''Apps'', product_count = 12, total_sales = 70, total_reviews = 9,
     top10_sales = 60\<rparr> \<notin> set (filtered_cats_df apps_and_toys 15 150 ''By Total Sales (Heat)'')"
  using filtered_cats_df_exact [of apps_and_toys 15 150 "''By Total Sales (Heat)''"]
  by (simp add: filtered_apps_and_toys apps_and_toys_def)



section \<open>The script on a concrete file\<close>

lemma country_neq_misr:
  "A_lian_qiu \<noteq> ''Misr''" "Sha_te \<noteq> ''Misr''" "''Misr'' \<noteq> A_lian_qiu" "''Misr'' \<noteq> Sha_te"
  by (simp_all add: A_lian_qiu_def Sha_te_def)

lemma fix_cell_digits:
  "fix_cell (Text ''100'') = Num 100" "fix_cell (Text ''50'') = Num 50"
  "fix_cell (Text ''999'') = Num 999" "fix_cell (Text ''0'') = Num 0"
  "fix_cell (Text ''1'') = Num 1" "fix_cell (Text ''2'') = Num 2"
  by (simp_all add: parse_eval str_strip_plain lead_bytes_eq trail_bytes_eq)

lemmas load_eval = load_data_def loaded_from_def file_columns_def listing_def copy_column_def
  default_country_def set_column_def cols_to_fix_def fix_column_def add_label_def products_def
  product_of_def text_of_def num_of_def read_df_raw_def

lemma read_toys_file: "read_df_raw toys_file = Inr toys_products"
  by (simp add: toys_file_def toys_products_def load_eval toys_def fix_cell_digits
      del: fix_cell.simps)

lemma available_toys_products: "available_countries_en toys_products = [''UAE'']"
  by (simp add: toys_products_def available_countries_en_def available_countries_cn_def
      unique_def country_map_def toys_sel country_neq country_neq_misr)

lemma region_filter_toys_products:
  "region_filter toys_products A_lian_qiu =
     [toys A_lian_qiu (Some ''car'') 100 1, toys A_lian_qiu (Some ''doll'') 50 2]"
  by (simp add: toys_products_def region_filter_def toys_sel country_neq_misr)

lemma category_stats_two_toys:
  "category_stats [toys A_lian_qiu (Some ''car'') 100 1, toys A_lian_qiu (Some ''doll'') 50 2] =
     Inr [\<lparr>category = ''Toys'', product_count = 2, total_sales = 150, total_reviews = 0,
       top10_sales = 150\<rparr>]"
  by (simp add: stats_eval)

lemmas page_eval = page_def tables_def default_idx_def list_index_def st_radio_def country_map_def
  max_product_count_def max_total_sales_def series_max_def py_int_def sort_options_def
  filtered_cats_df_def sort_values_def valid_categories_def category_details_def
  current_cat_def truthy_def subset_rows_def

lemma files_have_rank:
  "Paiming \<in> set (columns toys_file)" "Paiming \<in> set (columns blank_category_file)"
  "Paiming \<in> set (columns null_category_file)"
  by (simp_all add: toys_file_def blank_category_file_def null_category_file_def
      file_columns_def)

lemma dashboard_toys_file: "dashboard toys_file first_visit = Inr toys_view"
  by (simp add: dashboard_def read_toys_file files_have_rank page_eval available_toys_products first_visit_def
      region_filter_toys_products category_stats_two_toys toys_view_def toys_sel)

section \<open>The sales heat of a listing\<close>

lemma py_int_Some: "py_int (Some q) \<noteq> Inl e"
  by (simp add: py_int_def)

text \<open>
  Claim C8. \<open>progress_val\<close> never raises \<^verbatim>\<open>ZeroDivisionError\<close>, whatever the row and the
  table; and when \<open>max_val\<close>, the integer part of the largest sales number of the table,
  is 0, the heat value is 0.
\<close>

theorem progress_val_no_division_fault:
  "progress_val row df \<noteq> Inl ZeroDivisionError \<and>
   (py_int (series_max (map xiaoliang_shuzi df)) = Inr 0 \<longrightarrow> progress_val row df = Inr 0)"
  by (auto simp: progress_val_def true_div_def py_int_def split: sum.splits option.splits)

theorem progress_val_no_division_fault_witness:
  "py_int (series_max (map xiaoliang_shuzi unsold_rows)) = Inr 0 \<and>
   progress_val (toys A_lian_qiu (Some ''car'') 0 1) unsold_rows = Inr 0"
proof -
  have h: "py_int (series_max (map xiaoliang_shuzi unsold_rows)) = Inr 0"
    by (simp add: unsold_rows_def toys_def series_max_def py_int_def)
  with progress_val_no_division_fault [of "toys A_lian_qiu (Some ''car'') 0 1" unsold_rows]
  show ?thesis by blast
qed

lemma progress_val_examples:
  "progress_val (toys A_lian_qiu (Some ''doll'') 50 2) (region_filter three_rows A_lian_qiu) = Inr (1 / 2)"
  "progress_val (toys A_lian_qiu (Some ''doll'') 50 2) [] = Inl ValueError"
  by (simp_all add: region_filter_three_rows progress_val_def py_int_def series_max_def toys_def
      true_div_def)

section \<open>The countries on offer\<close>

lemma available_countries_en_subset:
  "set (available_countries_en df_raw) \<subseteq> {''UAE'', ''KSA''}"
  by (auto simp: available_countries_en_def country_map_def)

lemma available_countries_en_iff:
  "en \<in> set (available_countries_en df_raw) \<longleftrightarrow>
     (en = ''UAE'' \<and> Some A_lian_qiu \<in> set (map guojia df_raw)) \<or>
     (en = ''KSA'' \<and> Some Sha_te \<in> set (map guojia df_raw))"
  by (auto simp: available_countries_en_def country_map_def available_countries_cn_def unique_def)




lemma set_subset_rows: "set (subset_rows df c) \<subseteq> set df"
  by (auto simp: subset_rows_def set_sort_values)

text \<open>
  Claim C10. A label the radio offers is a key of \<open>country_map\<close>, UAE or KSA, whose
  value occurs in the country column, and filtering on that value leaves out every row
  whose country is neither of the two values of the map. On a page the script renders,
  the rows \<open>df\<close> all have one of the two countries, and the summaries, the filtered
  summaries and the rows shown under a category are all computed from \<open>df\<close>.
\<close>

theorem only_mapped_regions_are_selected:
  "(en \<in> set (available_countries_en df_raw) \<longrightarrow>
      (\<exists>cn. map_of country_map en = Some cn \<and>
            (en = ''UAE'' \<and> cn = A_lian_qiu \<or> en = ''KSA'' \<and> cn = Sha_te) \<and>
            Some cn \<in> set (map guojia df_raw) \<and>
            (\<forall>r \<in> set df_raw.
               guojia r \<noteq> Some A_lian_qiu \<and> guojia r \<noteq> Some Sha_te
                 \<longrightarrow> r \<notin> set (region_filter df_raw cn)))) \<and>
   (dashboard file u = Inr v \<longrightarrow>
      (\<forall>r \<in> set (view_df v). guojia r = Some A_lian_qiu \<or> guojia r = Some Sha_te) \<and>
      category_stats (view_df v) = Inr (view_category_stats v) \<and>
      set (view_filtered_cats_df v) \<subseteq> set (view_category_stats v) \<and>
      (\<forall>c shown. view_details v = Selected c shown \<longrightarrow> set shown \<subseteq> set (view_df v)))"
proof (intro conjI impI)
  assume "en \<in> set (available_countries_en df_raw)"
  then show "\<exists>cn. map_of country_map en = Some cn \<and>
            (en = ''UAE'' \<and> cn = A_lian_qiu \<or> en = ''KSA'' \<and> cn = Sha_te) \<and>
            Some cn \<in> set (map guojia df_raw) \<and>
            (\<forall>r \<in> set df_raw.
               guojia r \<noteq> Some A_lian_qiu \<and> guojia r \<noteq> Some Sha_te
                 \<longrightarrow> r \<notin> set (region_filter df_raw cn))"
    by (auto simp: available_countries_en_iff country_map_def region_filter_def)
next
  assume d: "dashboard file u = Inr v"
  then obtain df_raw en cn where
    en: "st_radio (available_countries_en df_raw) (default_idx (available_countries_en df_raw))
           (country_picked u) = Some en"
    and cn: "map_of country_map en = Some cn"
    and v: "view_df v = region_filter df_raw cn"
       "category_stats (region_filter df_raw cn) = Inr (view_category_stats v)"
       "view_filtered_cats_df v = filtered_cats_df (view_category_stats v)
           (slider_min_products u) (slider_min_sales u)
           (case st_radio sort_options 0 (sort_picked u) of None \<Rightarrow> [] | Some m \<Rightarrow> m)"
       "view_details v = category_details (region_filter df_raw cn) (session_selected_category u)
           (valid_categories (view_filtered_cats_df v))"
    by (auto simp: dashboard_def page_def tables_def split: sum.splits if_splits option.splits)
  from cn have "cn = A_lian_qiu \<or> cn = Sha_te"
    by (auto simp: country_map_def split: if_splits)
  then show "\<forall>r \<in> set (view_df v). guojia r = Some A_lian_qiu \<or> guojia r = Some Sha_te"
    by (auto simp: v region_filter_def)
  show "category_stats (view_df v) = Inr (view_category_stats v)"
    by (simp add: v)
  show "set (view_filtered_cats_df v) \<subseteq> set (view_category_stats v)"
    by (auto simp: v(3) filtered_cats_df_def set_sort_values)
  show "\<forall>c shown. view_details v = Selected c shown \<longrightarrow> set shown \<subseteq> set (view_df v)"
    using set_subset_rows
    by (auto simp: v(1,4) category_details_def split: option.splits if_splits)
qed

theorem only_mapped_regions_are_selected_witness:
  "''UAE'' \<in> set (available_countries_en toys_products) \<and>
   dashboard toys_file first_visit = Inr toys_view \<and>
   toys ''Misr'' (Some ''kite'') 999 1 \<in> set toys_products \<and>
   toys ''Misr'' (Some ''kite'') 999 1 \<notin> set (region_filter toys_products A_lian_qiu) \<and>
   map guojia (view_df toys_view) = [Some A_lian_qiu, Some A_lian_qiu]"
proof -
  have a: "''UAE'' \<in> set (available_countries_en toys_products)"
    by (simp add: available_toys_products)
  have m: "toys ''Misr'' (Some ''kite'') 999 1 \<in> set toys_products"
    by (simp add: toys_products_def)
  have g: "guojia (toys ''Misr'' (Some ''kite'') 999 1) \<noteq> Some A_lian_qiu \<and>
           guojia (toys ''Misr'' (Some ''kite'') 999 1) \<noteq> Some Sha_te"
    by (simp add: toys_sel country_neq_misr)
  from only_mapped_regions_are_selected
         [of "''UAE''" toys_products toys_file first_visit toys_view] a m g
  have "toys ''Misr'' (Some ''kite'') 999 1 \<notin> set (region_filter toys_products A_lian_qiu)"
    by (auto simp: country_map_def)
  with a m show ?thesis
    by (simp add: dashboard_toys_file toys_view_def toys_sel)
qed

section \<open>The columns of a loaded file\<close>

lemma columns_fix_column: "columns (fix_column col df) = columns df"
  by (simp add: fix_column_def)

lemma column_values_fix_column:
  "column_values c (fix_column col df) =
     (if c = col \<and> col \<in> set (columns df) then map fix_cell (column_values c df)
      else column_values c df)"
  by (simp add: fix_column_def column_values_def)

lemma columns_foldl_fix:
  "columns (foldl (\<lambda>df col. fix_column col df) df cols) = columns df"
  by (induction cols arbitrary: df) (simp_all add: columns_fix_column)

lemma length_rows_foldl_fix:
  "length (rows (foldl (\<lambda>df col. fix_column col df) df cols)) = length (rows df)"
  by (induction cols arbitrary: df) (simp_all add: fix_column_def)

lemma column_values_foldl_fix_other:
  "c \<notin> set cols \<Longrightarrow>
     column_values c (foldl (\<lambda>df col. fix_column col df) df cols) = column_values c df"
  by (induction cols arbitrary: df) (simp_all add: column_values_fix_column)


lemma column_values_copy_column:
  "column_values c (copy_column t src df) =
     (if c = t then column_values src df else column_values c df)"
  by (simp add: copy_column_def column_values_def)

lemma length_rows_copy_column: "length (rows (copy_column t src df)) = length (rows df)"
  by (simp add: copy_column_def)

lemma columns_copy_column: "set (columns (copy_column t src df)) = insert t (set (columns df))"
  by (auto simp: copy_column_def add_label_def)

lemma column_values_default_country:
  "column_values c (default_country df) =
     (if c = Guojia \<and> Guojia \<notin> set (columns df)
      then replicate (length (rows df)) (Text A_lian_qiu) else column_values c df)"
  by (simp add: default_country_def set_column_def column_values_def comp_def
      map_replicate_const)

lemma columns_default_country:
  "set (columns (default_country df)) = insert Guojia (set (columns df))"
  by (auto simp: default_country_def set_column_def add_label_def)

lemma length_rows_prepare:
  "length (rows (default_country (copy_column t src df))) = length (rows df)"
  by (simp add: default_country_def set_column_def copy_column_def)

lemma not_fixed: "Target_Category \<notin> set cols_to_fix" "Guojia \<notin> set cols_to_fix"
  by (simp_all add: cols_to_fix_def)

lemma loaded_from_category:
  "column_values Target_Category (loaded_from src df0) = column_values src df0"
  by (simp add: loaded_from_def column_values_foldl_fix_other not_fixed
      column_values_default_country column_values_copy_column)

lemma loaded_from_country:
  "Guojia \<in> set (columns (loaded_from src df0))"
  "column_values Guojia (loaded_from src df0) =
     (if Guojia \<in> set (columns df0) then column_values Guojia df0
      else replicate (length (rows df0)) (Text A_lian_qiu))"
  by (simp_all add: loaded_from_def columns_foldl_fix columns_default_country
      column_values_foldl_fix_other not_fixed column_values_default_country
      column_values_copy_column columns_copy_column length_rows_copy_column)


text \<open>
  Claim C7. The loader takes the category from the first of the two labels that the file
  has, the label at line 35 before the one at line 37. With neither label it stops with the
  schema error, and then so does the whole script, whatever the visitor does. A file
  without a country column is no error: the loader returns a frame of the same length
  whose country column holds the default country on every row; a file with a country
  column keeps its countries.
\<close>

theorem load_data_resolves_columns:
  "(load_data df0 = Inl Category_column_missing \<longleftrightarrow>
      Leimu \<notin> set (columns df0) \<and> Suoshu_leimu \<notin> set (columns df0)) \<and>
   (load_data df0 = Inl Category_column_missing \<longrightarrow>
      dashboard df0 u = Inl Category_column_missing) \<and>
   (Leimu \<in> set (columns df0) \<longrightarrow>
      (\<exists>df. load_data df0 = Inr df \<and>
            column_values Target_Category df = column_values Leimu df0)) \<and>
   (Leimu \<notin> set (columns df0) \<and> Suoshu_leimu \<in> set (columns df0) \<longrightarrow>
      (\<exists>df. load_data df0 = Inr df \<and>
            column_values Target_Category df = column_values Suoshu_leimu df0)) \<and>
   (load_data df0 = Inr df \<and> Guojia \<notin> set (columns df0) \<longrightarrow>
      Guojia \<in> set (columns df) \<and> length (rows df) = length (rows df0) \<and>
      column_values Guojia df = replicate (length (rows df0)) (Text A_lian_qiu)) \<and>
   (load_data df0 = Inr df \<and> Guojia \<in> set (columns df0) \<longrightarrow>
      column_values Guojia df = column_values Guojia df0)"
proof -
  have len: "\<And>src. length (rows (loaded_from src df0)) = length (rows df0)"
    by (simp add: loaded_from_def length_rows_foldl_fix length_rows_prepare)
  show ?thesis
    by (auto simp: load_data_def dashboard_def read_df_raw_def loaded_from_category
        loaded_from_country len split: if_splits)
qed

theorem load_data_resolves_columns_witness:
  "load_data no_category_file = Inl Category_column_missing \<and>
   dashboard no_category_file first_visit = Inl Category_column_missing \<and>
   Leimu \<in> set (columns toys_file) \<and>
   map_sum id (column_values Target_Category) (load_data toys_file) =
     Inr [Text ''Toys'', Text ''Toys'', Text ''Toys''] \<and>
   Leimu \<notin> set (columns no_country_file) \<and> Suoshu_leimu \<in> set (columns no_country_file) \<and>
   Guojia \<notin> set (columns no_country_file) \<and>
   map_sum id (column_values Target_Category) (load_data no_country_file) = Inr [Text ''Toys''] \<and>
   map_sum id (column_values Guojia) (load_data no_country_file) = Inr [Text A_lian_qiu]"
proof -
  have a: "load_data no_category_file = Inl Category_column_missing"
    by (simp add: load_data_def no_category_file_def)
  have b: "Leimu \<in> set (columns toys_file)"
    by (simp add: toys_file_def file_columns_def)
  have c: "Leimu \<notin> set (columns no_country_file) \<and> Suoshu_leimu \<in> set (columns no_country_file)"
    by (simp add: no_country_file_def)
  have d: "load_data no_country_file = Inr (loaded_from Suoshu_leimu no_country_file) \<and>
           Guojia \<notin> set (columns no_country_file)"
    by (simp add: load_data_def no_country_file_def)
  note t1 = load_data_resolves_columns [of no_category_file first_visit]
  note t2 = load_data_resolves_columns [of toys_file]
  note t3 = load_data_resolves_columns
              [of no_country_file first_visit "loaded_from Suoshu_leimu no_country_file"]
  from t1 a have 1: "dashboard no_category_file first_visit = Inl Category_column_missing"
    by blast
  from t2 b obtain df2 where
      "load_data toys_file = Inr df2"
      "column_values Target_Category df2 = column_values Leimu toys_file"
    by blast
  then have 2: "map_sum id (column_values Target_Category) (load_data toys_file) =
      Inr [Text ''Toys'', Text ''Toys'', Text ''Toys'']"
    by (simp add: toys_file_def column_values_def listing_def)
  from t3 c obtain df3 where
      "load_data no_country_file = Inr df3"
      "column_values Target_Category df3 = column_values Suoshu_leimu no_country_file"
    by blast
  then have 3: "map_sum id (column_values Target_Category) (load_data no_country_file) =
      Inr [Text ''Toys'']"
    by (simp add: no_country_file_def column_values_def)
  from t3 d have "column_values Guojia (loaded_from Suoshu_leimu no_country_file) =
      replicate (length (rows no_country_file)) (Text A_lian_qiu)"
    by blast
  with d have 4: "map_sum id (column_values Guojia) (load_data no_country_file) =
      Inr [Text A_lian_qiu]"
    by (simp add: no_country_file_def)
  from a b c d 1 2 3 4 show ?thesis by simp
qed

section \<open>The numbers of a loaded file\<close>












text \<open>
  What the loader makes of some texts: white space of any kind is taken off both ends,
  an infinity is kept, a numeral with a text after it is no number.
\<close>

lemma fix_cell_examples:
  "fix_cell (Text [CHR 0xC2, CHR 0xA0, CHR ''5'']) = Num 5"
  "fix_cell (Text [CHR ''5'', CHR 0x1C]) = Num 5"
  "fix_cell (Text '' 1,234.5 '') = Num (2469 / 2)"
  "fix_cell (Text ''inf'') = Infinite False"
  "fix_cell (Text ''-Infinity'') = Infinite True"
  "fix_cell (Text ''12abc'') = Num 0"
  "fix_cell (Text ''1e3'') = Num 1000"
  "fix_cell Null = Num 0"
  "fix_cell (Infinite True) = Infinite True"
  by (simp_all add: parse_eval str_strip_def strip_leading.simps whitespace_def)




section \<open>The details of the selected category\<close>

lemma current_cat_in_valid:
  "current_cat sel valid = Some c \<Longrightarrow> c \<in> set valid"
  by (auto simp: current_cat_def split: if_splits list.splits)

lemma current_cat_fallback:
  "sel \<notin> Some ` set valid \<Longrightarrow>
     current_cat sel valid = (case valid of [] \<Rightarrow> None | c # _ \<Rightarrow> Some c)"
  by (simp add: current_cat_def)

lemma category_details_named:
  "current_cat sel valid = Some c \<Longrightarrow> c \<noteq> [] \<Longrightarrow>
     category_details df sel valid = Selected c (subset_rows df c)"
  by (simp add: category_details_def truthy_def)

lemma category_details_none:
  "valid = [] \<Longrightarrow> category_details df sel valid = No_data_warning"
  by (simp add: category_details_def current_cat_def)

lemma subset_rows_exact:
  "mset (subset_rows df c) = filter_mset (\<lambda>r. target_category r = Some c) (mset df)"
  "sorted_wrt (\<lambda>a b. paiming a \<le> paiming b) (subset_rows df c)"
  by (simp_all add: subset_rows_def mset_sort_values sorted_wrt_sort_values_asc)

lemma read_blank_category_file: "read_df_raw blank_category_file = Inr [blank_car]"
  by (simp add: blank_category_file_def blank_car_def load_eval fix_cell_digits
      del: fix_cell.simps)

lemma category_stats_blank_car:
  "category_stats [blank_car] =
     Inr [\<lparr>category = [], product_count = 1, total_sales = 100, total_reviews = 0,
           top10_sales = 100\<rparr>]"
  by (simp add: blank_car_def stats_eval)

lemma one_car_in_first_country:
  "available_countries_en [blank_car] = [''UAE'']"
  "region_filter [blank_car] A_lian_qiu = [blank_car]"
  "available_countries_en [uncategorised_car] = [''UAE'']"
  "region_filter [uncategorised_car] A_lian_qiu = [uncategorised_car]"
  by (simp_all add: blank_car_def uncategorised_car_def available_countries_en_def
      available_countries_cn_def unique_def country_map_def region_filter_def country_neq)

text \<open>
  Claim C6. For a category with a name the selector does what is asked of it: the
  category in the session state is kept when it qualifies, the first qualifying one is
  taken otherwise, and the rows shown are those of that category in ascending rank
  (lemmas \<open>current_cat_fallback\<close>, \<open>category_details_named\<close>, \<open>subset_rows_exact\<close>). The
  test of line 204 is the truth of the name, though, and the empty text is false: a region
  whose one category is the empty text has that category qualifying and selected, and is
  answered with the warning of line 261 all the same, in the selector and on the page of
  a file with such a listing.
\<close>

theorem empty_category_name_is_not_shown:
  "map_sum id (\<lambda>stats. valid_categories (filtered_cats_df stats 0 0 ''By Total Sales (Heat)''))
     (category_stats [blank_car]) = Inr [[]] \<and>
   current_cat None [[]] = Some [] \<and>
   category_details [blank_car] None [[]] = No_data_warning \<and>
   map_sum id view_details (dashboard blank_category_file first_visit) = Inr No_data_warning"
  by (simp add: dashboard_def read_blank_category_file files_have_rank page_eval one_car_in_first_country
      first_visit_def category_stats_blank_car)

section \<open>A region and its rows\<close>

lemma read_null_category_file: "read_df_raw null_category_file = Inr [uncategorised_car]"
  by (simp add: null_category_file_def uncategorised_car_def load_eval fix_cell_digits
      del: fix_cell.simps)

lemma category_stats_uncategorised: "category_stats [uncategorised_car] = Inl TypeError"
  by (simp add: uncategorised_car_def stats_eval)

text \<open>
  A file whose one listing has no category: the script loads it, offers its region, and
  stops at line 105.
\<close>

lemma dashboard_null_category_file: "dashboard null_category_file first_visit = Inl TypeError"
  by (simp add: dashboard_def read_null_category_file files_have_rank page_eval one_car_in_first_country
      first_visit_def category_stats_uncategorised)






end
